theory Spec2Isabelle
  imports Complex_Main "HOL-Library.Word"
begin

unbundle bit_operations_syntax

section \<open>The Number wrapper\<close>

text \<open>
  \<^verbatim>\<open>struct Number\<close> wraps a \<^verbatim>\<open>double\<close>. Every value this program stores in one is
  an integer or a quotient of a 32-bit integer by a power of two, which a double holds
  exactly, so a Number is modelled by the real number it holds and \<open>+\<close>, \<open>-\<close>, \<open>*\<close>,
  \<open>/\<close> by the exact operations. (Integers are exact in a double up to \<open>2 ^ 53\<close>; the
  lemma \<open>seed_magnitude\<close> below bounds the seeded words by the length of the seed text.)

  The bitwise operators first bring the value to 32 bits:
  \<^verbatim>\<open>static_cast<int32_t>(static_cast<int64_t>(m_value) & 0xFFFFFFFF)\<close>.
  The cast to \<^verbatim>\<open>int64_t\<close> truncates towards zero, the mask keeps the low 32 bits and the
  cast to \<^verbatim>\<open>int32_t\<close> reads them as two's complement: that is \<open>to_int32\<close>, a
  \<open>32 word\<close>. The result of an operator is again a Number, built from the
  \<^verbatim>\<open>int32_t\<close>: \<open>of_int32\<close>, the signed reading of the word.
\<close>

type_synonym Number = real

definition trunc :: "Number \<Rightarrow> int" where
  "trunc v = (if 0 \<le> v then \<lfloor>v\<rfloor> else \<lceil>v\<rceil>)"

definition to_int32 :: "Number \<Rightarrow> 32 word" where
  "to_int32 v = word_of_int (trunc v)"

definition of_int32 :: "32 word \<Rightarrow> Number" where
  "of_int32 a = of_int (sint a)"

text \<open>\<^verbatim>\<open>Number::operator<<\<close>: a left shift of the \<^verbatim>\<open>int32_t\<close>, keeping 32 bits.\<close>

definition shl :: "Number \<Rightarrow> nat \<Rightarrow> Number" where
  "shl v n = of_int32 (push_bit n (to_int32 v))"

text \<open>
  \<^verbatim>\<open>Number::operator>>\<close>: a right shift of the \<^verbatim>\<open>int32_t\<close>, a signed type, so the
  sign bit is copied into the vacated positions.
\<close>

definition shr :: "Number \<Rightarrow> nat \<Rightarrow> Number" where
  "shr v n = of_int32 (signed_drop_bit n (to_int32 v))"

text \<open>\<^verbatim>\<open>Number::operator^\<close>.\<close>

definition bxor :: "Number \<Rightarrow> Number \<Rightarrow> Number" where
  "bxor a b = of_int32 (to_int32 a XOR to_int32 b)"

text \<open>
  \<^verbatim>\<open>unsignedShiftRight(number, n)\<close> is \<^verbatim>\<open>static_cast<uint32_t>(number >> n)\<close>:
  the signed shift, whose result is then converted to \<^verbatim>\<open>uint32_t\<close>. The conversion is
  taken modulo \<open>2 ^ 32\<close>, which is what the \<^verbatim>\<open>>>>\<close> operator the function replaces
  computes.
\<close>

definition to_uint32 :: "Number \<Rightarrow> 32 word" where
  "to_uint32 v = word_of_int (trunc v)"

definition unsignedShiftRight :: "Number \<Rightarrow> nat \<Rightarrow> Number" where
  "unsignedShiftRight number n = of_int (uint (to_uint32 (shr number n)))"

section \<open>The pseudorandom number generator\<close>

text \<open>
  \<^verbatim>\<open>Number m_seed[4]\<close>, the four words \<open>[x, y, z, w]\<close> of the generator, with the
  array read \<^verbatim>\<open>m_seed[i]\<close> and the array write \<^verbatim>\<open>m_seed[i] = v\<close>. The only indices
  the program uses are \<open>0\<close> to \<open>3\<close>.
\<close>

type_synonym rng = "Number \<times> Number \<times> Number \<times> Number"

fun m_seed :: "'a \<times> 'a \<times> 'a \<times> 'a \<Rightarrow> nat \<Rightarrow> 'a" where
  "m_seed (x, y, z, w) i = (if i = 0 then x else if i = 1 then y else if i = 2 then z else w)"

fun m_seed_upd :: "'a \<times> 'a \<times> 'a \<times> 'a \<Rightarrow> nat \<Rightarrow> 'a \<Rightarrow> 'a \<times> 'a \<times> 'a \<times> 'a" where
  "m_seed_upd (x, y, z, w) i v =
     (if i = 0 then (v, y, z, w) else if i = 1 then (x, v, z, w)
      else if i = 2 then (x, y, v, w) else (x, y, z, v))"

text \<open>
  The value of \<^verbatim>\<open>seed[i]\<close> in the sum \<^verbatim>\<open>... + seed[i]\<close>: a plain \<^verbatim>\<open>char\<close>, converted
  to \<^verbatim>\<open>double\<close>. Plain \<^verbatim>\<open>char\<close> is a signed type on the usual targets (x86-64): a byte
  from \<open>0x80\<close> on counts as the byte minus 256.
\<close>

definition char_code :: "char \<Rightarrow> Number" where
  "char_code c = (if (of_char c :: nat) < 128 then of_int (of_char c) else of_int (of_char c) - 256)"

text \<open>
  \<^verbatim>\<open>seed\<close>: the first loop clears the four words, the second one runs over the
  characters of the text, \<open>i\<close> being the index of the character.
\<close>

fun seed_loop :: "nat \<Rightarrow> string \<Rightarrow> rng \<Rightarrow> rng" where
  "seed_loop i [] m = m"
| "seed_loop i (c # cs) m =
     seed_loop (i + 1) cs
       (m_seed_upd m (i mod 4) ((shl (m_seed m (i mod 4)) 5 - m_seed m (i mod 4)) + char_code c))"

definition seed :: "string \<Rightarrow> rng \<Rightarrow> rng" where
  "seed text m =
     seed_loop 0 text (m_seed_upd (m_seed_upd (m_seed_upd (m_seed_upd m 0 0) 1 0) 2 0) 3 0)"

text \<open>
  \<^verbatim>\<open>generate\<close> returns the drawn number and the new state. The divisor is
  \<^verbatim>\<open>unsignedShiftRight(1 << 31, 0)\<close>, the \<^verbatim>\<open>int\<close> with only its sign bit set, read
  as unsigned.
\<close>

fun generate :: "rng \<Rightarrow> Number \<times> rng" where
  "generate (x, y, z, w) =
     (let t = bxor x (shl x 11);
          w' = bxor (bxor (bxor w (shr w 19)) t) (shr t 8)
      in (unsignedShiftRight w' 0 / unsignedShiftRight (of_int32 (push_bit 31 1)) 0,
          (y, z, w, w')))"

text \<open>
  The state after \<open>n\<close> calls of \<^verbatim>\<open>generate\<close>, and the number that call \<open>n + 1\<close>
  returns.
\<close>

fun advance :: "nat \<Rightarrow> rng \<Rightarrow> rng" where
  "advance 0 g = g"
| "advance (Suc n) g = advance n (snd (generate g))"

definition draw :: "rng \<Rightarrow> nat \<Rightarrow> Number" where
  "draw g n = fst (generate (advance n g))"

section \<open>Colours\<close>

text \<open>
  The conversion of a Number to a string is \<^verbatim>\<open>std::to_string(m_value)\<close>, the rendering
  of the library's \<^verbatim>\<open>%f\<close>: the value in fixed notation, rounded to six digits after the
  point (a tie going to the even digit).
\<close>

definition round_half_even :: "real \<Rightarrow> int" where
  "round_half_even v =
     (let f = \<lfloor>v\<rfloor>; d = v - of_int f
      in if d < 1 / 2 then f else if 1 / 2 < d then f + 1 else if even f then f else f + 1)"

function decimal :: "int \<Rightarrow> string" where
  "decimal n =
     (if n < 10 then [''0123456789'' ! nat n]
      else decimal (n div 10) @ [''0123456789'' ! nat (n mod 10)])"
  by pat_completeness auto
termination
  by (relation "measure nat") auto

definition to_string :: "Number \<Rightarrow> string" where
  "to_string v =
     (let n = round_half_even (\<bar>v\<bar> * 1000000);
          fraction = decimal (n mod 1000000)
      in (if v < 0 then ''-'' else []) @ decimal (n div 1000000) @ ''.''
         @ replicate (6 - length fraction) (CHR ''0'') @ fraction)"

text \<open>
  \<^verbatim>\<open>createColor\<close> calls \<^verbatim>\<open>rand\<close> six times: once for the hue, once for the saturation
  and four times in the sum for the lightness. (The four calls are operands of one sum;
  in whichever order they run, the sum is the same, each summand being a multiple of
  \<open>1 / 2 ^ 31\<close> below 2.)
\<close>

definition createColor :: "rng \<Rightarrow> string \<times> rng" where
  "createColor g0 =
     (let (r1, g1) = generate g0;
          h = of_int \<lfloor>r1 * 360\<rfloor>;
          (r2, g2) = generate g1;
          s = to_string ((r2 * 60) + 40) @ ''%'';
          (r3, g3) = generate g2;
          (r4, g4) = generate g3;
          (r5, g5) = generate g4;
          (r6, g6) = generate g5;
          l = to_string ((r3 + r4 + r5 + r6) * 25) @ ''%'';
          color = ''hsl('' @ to_string h @ '','' @ s @ '','' @ l @ '')''
      in (color, g6))"

section \<open>Faults\<close>

text \<open>
  The ways in which a call can end without a value. \<open>OutOfRange\<close>: an element of an
  \<^verbatim>\<open>Array\<close> is read or written beyond its end, or a range beyond its end is copied (for
  \<^verbatim>\<open>std::vector\<close> the behaviour is undefined; \<^verbatim>\<open>operator[]\<close> never grows the vector).
  \<open>ForeignIterator\<close>: elements are inserted into a vector at an iterator of another
  vector (undefined as well). \<open>InvalidArgument\<close>: the condition that a check of the
  arguments would signal; no statement of the source raises it.
\<close>

datatype fault = OutOfRange | ForeignIterator | InvalidArgument

section \<open>The Array class\<close>

text \<open>
  \<^verbatim>\<open>Array<T>\<close> is a \<^verbatim>\<open>std::vector<T>\<close>: a list.

  \<^verbatim>\<open>slice(startIndex, count)\<close> builds a new Array from the range
  \<^verbatim>\<open>[cbegin() + startIndex, cbegin() + startIndex + count)\<close>, which has to lie within the
  Array.
\<close>

definition slice :: "'a list \<Rightarrow> nat \<Rightarrow> nat \<Rightarrow> fault + 'a list" where
  "slice xs startIndex count =
     (if startIndex + count \<le> length xs then Inr (take count (drop startIndex xs))
      else Inl OutOfRange)"

text \<open>\<^verbatim>\<open>reverse()\<close> is \<^verbatim>\<open>std::reverse(begin(), end())\<close>, \<^verbatim>\<open>push(value)\<close> is \<^verbatim>\<open>push_back(value)\<close>.\<close>

definition reverse :: "'a list \<Rightarrow> 'a list" where
  "reverse xs = rev xs"

definition push :: "'a list \<Rightarrow> 'a \<Rightarrow> 'a list" where
  "push xs v = xs @ [v]"

text \<open>
  \<^verbatim>\<open>concat(other)\<close> copies \<^verbatim>\<open>*this\<close> into \<^verbatim>\<open>concatenatedArray\<close> and then calls
  \<^verbatim>\<open>concatenatedArray.insert(end(), other.begin(), other.end())\<close>. The position
  \<^verbatim>\<open>end()\<close> is \<^verbatim>\<open>this->end()\<close>, an iterator of \<^verbatim>\<open>*this\<close> and not of the copy: with
  elements to insert the behaviour is undefined; an empty range inserts nothing.
\<close>

definition concat_Array :: "'a list \<Rightarrow> 'a list \<Rightarrow> fault + 'a list" where
  "concat_Array xs other = (if other = [] then Inr xs else Inl ForeignIterator)"

text \<open>The assignment \<^verbatim>\<open>xs[i] = v\<close> through \<^verbatim>\<open>std::vector::operator[]\<close>.\<close>

definition assign_at :: "'a list \<Rightarrow> nat \<Rightarrow> 'a \<Rightarrow> fault + 'a list" where
  "assign_at xs i v = (if i < length xs then Inr (xs[i := v]) else Inl OutOfRange)"

section \<open>The bitmap\<close>

text \<open>
  \<^verbatim>\<open>createImageData\<close> is a generic lambda: \<^verbatim>\<open>size\<close> has the type of the argument. An
  argument of an integral type (an \<^verbatim>\<open>int\<close>, or the \<^verbatim>\<open>bool\<close> that \<^verbatim>\<open>createIcon\<close> passes,
  promoted to \<^verbatim>\<open>int\<close>) makes \<^verbatim>\<open>width / 2\<close> the division of integers, which truncates;
  a Number makes it the division of doubles. In \<^verbatim>\<open>width - dataWidth\<close> and in
  \<^verbatim>\<open>y < height\<close> the argument counts with its value.
\<close>

datatype size_arg = Integral int | Num Number

fun number_of :: "size_arg \<Rightarrow> Number" where
  "number_of (Integral k) = of_int k"
| "number_of (Num v) = v"

fun half :: "size_arg \<Rightarrow> Number" where
  "half (Integral k) = of_int (if 0 \<le> k then k div 2 else - ((- k) div 2))"
| "half (Num v) = v / 2"

text \<open>
  The right-hand side of line 180, \<^verbatim>\<open>floor(rand() * 2.3)\<close>, for a number \<open>r\<close> that
  \<^verbatim>\<open>rand()\<close> returned. (The constant is the double next to \<open>23 / 10\<close> and the product is
  rounded; the floor is that of the exact product with \<open>23 / 10\<close>, which for a draw
  \<open>u / 2 ^ 31\<close> with \<open>0 < u < 2 ^ 32\<close> is never nearer than \<open>1 / (10 * 2 ^ 31)\<close> to an integer.)
\<close>

definition cell :: "Number \<Rightarrow> int" where
  "cell r = \<lfloor>r * (23 / 10)\<rfloor>"

text \<open>
  The inner loop, \<^verbatim>\<open>for (auto x = 0; x < dataWidth; x++) row[x] = floor(rand() * 2.3)\<close>,
  by the number of rounds left, with the index \<open>x\<close> and the row so far: the number is
  drawn, then the cell is assigned to \<^verbatim>\<open>row[x]\<close>. (\<^verbatim>\<open>auto row = {}\<close> is read as an empty
  Array.)
\<close>

fun draw_cells :: "nat \<Rightarrow> nat \<Rightarrow> int list \<Rightarrow> rng \<Rightarrow> fault + (int list \<times> rng)" where
  "draw_cells 0 x row g = Inr (row, g)"
| "draw_cells (Suc n) x row g =
     (let (r, g') = generate g
      in case assign_at row x (cell r) of
           Inl e \<Rightarrow> Inl e
         | Inr row' \<Rightarrow> draw_cells n (x + 1) row' g')"

text \<open>
  The outer loop, \<^verbatim>\<open>for (auto y = 0; y < height; y++)\<close>, by the number of rounds left: the
  row is drawn into an empty Array, its first \<open>mirrorWidth\<close> cells are copied by
  \<^verbatim>\<open>slice\<close>, the copy is reversed and appended by \<^verbatim>\<open>concat\<close>, and the cells of the row
  are pushed onto \<open>data\<close> one by one.
\<close>

fun rows_loop :: "nat \<Rightarrow> nat \<Rightarrow> nat \<Rightarrow> int list \<Rightarrow> rng \<Rightarrow> fault + (int list \<times> rng)" where
  "rows_loop 0 dataWidth mirrorWidth data g = Inr (data, g)"
| "rows_loop (Suc n) dataWidth mirrorWidth data g =
     (case draw_cells dataWidth 0 [] g of
        Inl e \<Rightarrow> Inl e
      | Inr (row, g') \<Rightarrow>
          (case slice row 0 mirrorWidth of
             Inl e \<Rightarrow> Inl e
           | Inr r \<Rightarrow>
               (case concat_Array row (reverse r) of
                  Inl e \<Rightarrow> Inl e
                | Inr row' \<Rightarrow> rows_loop n dataWidth mirrorWidth (foldl push data row') g')))"

text \<open>
  \<^verbatim>\<open>createImageData\<close>. \<open>dataWidth\<close> and \<open>mirrorWidth\<close> are doubles; the loops run while
  the counter is below \<open>height\<close> and below \<open>dataWidth\<close>, and \<^verbatim>\<open>slice\<close> takes
  \<open>mirrorWidth\<close> converted to \<^verbatim>\<open>size_type\<close>.
\<close>

definition createImageData :: "size_arg \<Rightarrow> rng \<Rightarrow> fault + (int list \<times> rng)" where
  "createImageData size' g =
     (let width = size';
          height = size';
          dataWidth = \<lceil>half width\<rceil>;
          mirrorWidth = number_of width - of_int dataWidth
      in rows_loop (nat \<lceil>number_of height\<rceil>) (nat dataWidth) (nat \<lfloor>mirrorWidth\<rfloor>) [] g)"

section \<open>The icon\<close>

text \<open>
  The options. The size and the scale are numbers. The seed and the three colours are
  strings that the caller may leave out.
\<close>

record options =
  opts_size :: Number
  opts_scale :: Number
  opts_seed :: "string option"
  opts_color :: "string option"
  opts_bgcolor :: "string option"
  opts_spotcolor :: "string option"

text \<open>
  \<^verbatim>\<open>opts.size || 8\<close> and \<^verbatim>\<open>opts.scale || 4\<close>: on numbers \<^verbatim>\<open>||\<close> is the logical or, a
  \<^verbatim>\<open>bool\<close>, the right operand being evaluated only when the left one is zero.
\<close>

definition logical_or :: "Number \<Rightarrow> Number \<Rightarrow> bool" where
  "logical_or a b = (if a = 0 then b \<noteq> 0 else True)"

text \<open>
  Modelled from the spec: \<^verbatim>\<open>||\<close> with a string on its left, in
  \<^verbatim>\<open>opts.seed || ...\<close>. The source declares neither the type of the options nor such an
  operator (\<^verbatim>\<open>String\<close> has none). The specification resolves the seed to the value
  that the caller supplied, or else to a synthesized one.
\<close>

definition or_supplied :: "string option \<Rightarrow> string \<Rightarrow> string" where
  "or_supplied a b = (case a of None \<Rightarrow> b | Some s \<Rightarrow> s)"

text \<open>
  Modelled from the spec: \<^verbatim>\<open>opts.color || createColor()\<close>, the same missing operator
  with a call on its right. The specification resolves each colour to the value that
  the caller supplied, or else to a colour picked with the next six draws; the colour
  is picked only when none was supplied.
\<close>

definition or_createColor :: "string option \<Rightarrow> rng \<Rightarrow> string \<times> rng" where
  "or_createColor a g = (case a of None \<Rightarrow> createColor g | Some s \<Rightarrow> (s, g))"

text \<open>
  Lines 226 to 234 of \<^verbatim>\<open>createIcon\<close>: the size, the scale and the seed are resolved, the
  generator is seeded, and the three colours are resolved in the order colour,
  background colour, spot colour. \<open>synthesized\<close> is the seed that line 228 makes when
  the options hold none, an argument of the model (the right operand of line 228 calls
  functions that the source does not declare). The result is the resolved values and
  the state of the generator before \<^verbatim>\<open>createImageData\<close> is called.
\<close>

record resolved =
  res_size :: bool
  res_scale :: bool
  res_color :: string
  res_bgcolor :: string
  res_spotcolor :: string

definition createIcon_resolve :: "string \<Rightarrow> options \<Rightarrow> rng \<Rightarrow> resolved \<times> rng" where
  "createIcon_resolve synthesized opts g0 =
     (let size' = logical_or (opts_size opts) 8;
          scale = logical_or (opts_scale opts) 4;
          seed_text = or_supplied (opts_seed opts) synthesized;
          g1 = seed seed_text g0;
          (color, g2) = or_createColor (opts_color opts) g1;
          (bgcolor, g3) = or_createColor (opts_bgcolor opts) g2;
          (spotcolor, g4) = or_createColor (opts_spotcolor opts) g3
      in (\<lparr>res_size = size', res_scale = scale, res_color = color,
           res_bgcolor = bgcolor, res_spotcolor = spotcolor\<rparr>, g4))"

text \<open>
  What \<^verbatim>\<open>createIcon\<close> hands to \<^verbatim>\<open>createCanvas\<close>, which paints it through the
  browser's document.
\<close>

record icon =
  icon_imageData :: "int list"
  icon_color :: string
  icon_scale :: bool
  icon_bgcolor :: string
  icon_spotcolor :: string

text \<open>
  \<^verbatim>\<open>createIcon\<close>: after lines 226 to 234, \<^verbatim>\<open>createImageData(size)\<close> is called with the
  \<^verbatim>\<open>bool\<close> that the size was resolved to. The state \<open>g0\<close> of the generator is the one
  the call finds: \<^verbatim>\<open>main\<close> shares the generator between all calls.
\<close>

definition createIcon :: "string \<Rightarrow> options \<Rightarrow> rng \<Rightarrow> fault + (icon \<times> rng)" where
  "createIcon synthesized opts g0 =
     (let (r, g4) = createIcon_resolve synthesized opts g0
      in case createImageData (Integral (of_bool (res_size r))) g4 of
           Inl e \<Rightarrow> Inl e
         | Inr (imageData, g5) \<Rightarrow>
             Inr (\<lparr>icon_imageData = imageData, icon_color = res_color r,
                   icon_scale = res_scale r, icon_bgcolor = res_bgcolor r,
                   icon_spotcolor = res_spotcolor r\<rparr>, g5))"

section \<open>Notions of the specification\<close>

text \<open>
  The update of the fourth word on 32-bit words, with \<open>t = x XOR (x << 11)\<close>: once with
  the right shift of a signed word (\<^verbatim>\<open>>>\<close>, the sign bit copied) and once with the
  zero-filling right shift (\<^verbatim>\<open>>>>\<close>) that the specification writes.
\<close>

definition xorshift_signed :: "32 word \<Rightarrow> 32 word \<Rightarrow> 32 word" where
  "xorshift_signed x w =
     (let t = x XOR push_bit 11 x
      in w XOR signed_drop_bit 19 w XOR t XOR signed_drop_bit 8 t)"

definition xorshift_logical :: "32 word \<Rightarrow> 32 word \<Rightarrow> 32 word" where
  "xorshift_logical x w =
     (let t = x XOR push_bit 11 x
      in w XOR drop_bit 19 w XOR t XOR drop_bit 8 t)"

text \<open>
  The seeding of the specification, on four 32-bit words starting from zero: the
  character at index \<open>i\<close> with code \<open>c\<close> turns word \<open>i mod 4\<close> into itself times 31 plus
  \<open>c\<close>, truncated to 32 bits. The code of a character is its number from 0 to 255.
\<close>

type_synonym words = "32 word \<times> 32 word \<times> 32 word \<times> 32 word"

fun reference_loop :: "nat \<Rightarrow> string \<Rightarrow> words \<Rightarrow> words" where
  "reference_loop i [] s = s"
| "reference_loop i (c # cs) s =
     reference_loop (i + 1) cs (m_seed_upd s (i mod 4) (m_seed s (i mod 4) * 31 + of_char c))"

definition seed_reference :: "string \<Rightarrow> words" where
  "seed_reference text = reference_loop 0 text (0, 0, 0, 0)"

text \<open>The 32-bit words that the four Numbers of a state stand for.\<close>

fun words_of :: "rng \<Rightarrow> words" where
  "words_of (x, y, z, w) = (to_int32 x, to_int32 y, to_int32 z, to_int32 w)"

text \<open>
  Texts of 7-bit characters; states whose four Numbers are integers, and states
  bounded in magnitude.
\<close>

definition seven_bit :: "string \<Rightarrow> bool" where
  "seven_bit text = list_all (\<lambda>c. (of_char c :: nat) < 128) text"

fun integral :: "rng \<Rightarrow> bool" where
  "integral (x, y, z, w) = (x \<in> \<int> \<and> y \<in> \<int> \<and> z \<in> \<int> \<and> w \<in> \<int>)"

fun bounded :: "real \<Rightarrow> rng \<Rightarrow> bool" where
  "bounded b (x, y, z, w) = (\<bar>x\<bar> \<le> b \<and> \<bar>y\<bar> \<le> b \<and> \<bar>z\<bar> \<le> b \<and> \<bar>w\<bar> \<le> b)"

text \<open>
  The colour string made of six draws, the hue first, then the saturation, then the
  four summands of the lightness; and the colour made of the draws \<open>k + 1\<close> to \<open>k + 6\<close>
  of a generator in state \<open>g\<close>.
\<close>

definition hsl :: "Number \<Rightarrow> Number \<Rightarrow> Number \<Rightarrow> Number \<Rightarrow> Number \<Rightarrow> Number \<Rightarrow> string" where
  "hsl r1 r2 r3 r4 r5 r6 =
     ''hsl('' @ to_string (of_int \<lfloor>r1 * 360\<rfloor>) @ '','' @ (to_string ((r2 * 60) + 40) @ ''%'')
       @ '','' @ (to_string ((r3 + r4 + r5 + r6) * 25) @ ''%'') @ '')''"

definition color_of_draws :: "rng \<Rightarrow> nat \<Rightarrow> string" where
  "color_of_draws g k =
     hsl (draw g k) (draw g (k + 1)) (draw g (k + 2)) (draw g (k + 3)) (draw g (k + 4))
       (draw g (k + 5))"

text \<open>The number of draws that resolving a colour takes: six when none was supplied.\<close>

definition color_draws :: "string option \<Rightarrow> nat" where
  "color_draws a = (case a of None \<Rightarrow> 6 | Some s \<Rightarrow> 0)"

section \<open>Numbers and 32-bit words\<close>

lemma trunc_of_int [simp]: "trunc (of_int k) = k"
  by (simp add: trunc_def)

lemma to_int32_0 [simp]: "to_int32 0 = 0"
  by (simp add: to_int32_def trunc_def)

lemma trunc_of_int32 [simp]: "trunc (of_int32 a) = sint a"
  unfolding of_int32_def by (rule trunc_of_int)

lemma to_int32_of_int32 [simp]: "to_int32 (of_int32 a) = a"
  by (simp add: to_int32_def)

lemma to_uint32_of_int32 [simp]: "to_uint32 (of_int32 a) = a"
  by (simp add: to_uint32_def)

lemma of_int32_Ints [simp]: "of_int32 a \<in> \<int>"
  unfolding of_int32_def by (rule Ints_of_int)

lemma shl_Ints [simp]: "shl v n \<in> \<int>"
  by (simp add: shl_def)

lemma char_code_Ints [simp]: "char_code c \<in> \<int>"
  by (simp add: char_code_def)

lemma char_code_seven_bit: "(of_char c :: nat) < 128 \<Longrightarrow> char_code c = of_int (of_char c)"
  by (simp add: char_code_def)

lemma divisor: "unsignedShiftRight (of_int32 (push_bit 31 1)) 0 = 2 ^ 31"
  by (simp add: unsignedShiftRight_def shr_def)

lemma unsignedShiftRight_0: "unsignedShiftRight v 0 = of_int (uint (to_int32 v))"
  by (simp add: unsignedShiftRight_def shr_def)

section \<open>One step of the generator\<close>

lemma generate_words:
  "generate (x, y, z, w) =
     (of_int (uint (xorshift_signed (to_int32 x) (to_int32 w))) / 2 ^ 31,
      (y, z, w, of_int32 (xorshift_signed (to_int32 x) (to_int32 w))))"
  by (simp add: divisor unsignedShiftRight_0 bxor_def shl_def shr_def xorshift_signed_def Let_def
      xor.assoc)

declare generate.simps [simp del]

text \<open>
  Claim C2, as amended. A call of \<^verbatim>\<open>generate\<close> in state \<open>[x, y, z, w]\<close> leaves the state
  \<open>[y, z, w, w']\<close>, where with \<open>t = x XOR (x << 11)\<close> the new fourth word is
  \<open>w' = w XOR (w >> 19) XOR t XOR (t >> 8)\<close> on 32-bit words, \<^verbatim>\<open>>>\<close> being the right shift
  of the signed 32-bit value, which copies the sign bit (not the zero-filling \<^verbatim>\<open>>>>\<close>).
\<close>

theorem generate_signed_shift:
  "to_int32 (m_seed (snd (generate (x, y, z, w))) 3) = xorshift_signed (to_int32 x) (to_int32 w)
   \<and> snd (generate (x, y, z, w)) = (y, z, w, of_int32 (xorshift_signed (to_int32 x) (to_int32 w)))"
  by (simp add: generate_words)

text \<open>
  The claim C2 as stated, with the zero-filling shift, fails on the state seeded from
  thirteen characters \<open>0\<close>, whose first word has bit 20 set: there \<open>t\<close> is negative, the
  code's \<open>t >> 8\<close> fills with ones, and the new word, 1271021756, differs from the one
  of the zero-filling formula, 3032629436.
\<close>

theorem generate_logical_shift_counterexample:
  "seed ''0000000000000'' (0, 0, 0, 0) = (1477632, 47664, 47664, 47664)
   \<and> to_int32 (m_seed (snd (generate (seed ''0000000000000'' (0, 0, 0, 0)))) 3) = 1271021756
   \<and> xorshift_logical (to_int32 (m_seed (seed ''0000000000000'' (0, 0, 0, 0)) 0))
         (to_int32 (m_seed (seed ''0000000000000'' (0, 0, 0, 0)) 3)) = 3032629436
   \<and> to_int32 (m_seed (snd (generate (seed ''0000000000000'' (0, 0, 0, 0)))) 3)
       \<noteq> xorshift_logical (to_int32 (m_seed (seed ''0000000000000'' (0, 0, 0, 0)) 0))
            (to_int32 (m_seed (seed ''0000000000000'' (0, 0, 0, 0)) 3))"
  by code_simp

lemma generate_value:
  "fst (generate g) = of_int (uint (to_int32 (m_seed (snd (generate g)) 3))) / 2 ^ 31"
  by (cases g) (simp add: generate_words)

lemma generate_bounds: "0 \<le> fst (generate g) \<and> fst (generate g) < 2"
proof -
  obtain x y z w where g: "g = (x, y, z, w)" by (cases g) auto
  let ?u = "uint (xorshift_signed (to_int32 x) (to_int32 w))"
  have "?u < 2 ^ 32"
    using uint_lt2p [of "xorshift_signed (to_int32 x) (to_int32 w)"] by simp
  then have "(of_int ?u :: real) < of_int (2 ^ 32)"
    by (simp only: of_int_less_iff)
  moreover have "(of_int 0 :: real) \<le> of_int ?u"
    by (simp only: of_int_le_iff) simp
  ultimately show ?thesis
    by (simp add: g generate_words)
qed

lemma advance_Suc_right: "advance (Suc n) g = snd (generate (advance n g))"
  by (induction n arbitrary: g) simp_all

lemma advance_add: "advance (m + n) g = advance n (advance m g)"
  by (induction m arbitrary: g) simp_all

lemma draw_advance: "draw (advance m g) k = draw g (m + k)"
  by (simp add: draw_def advance_add)

text \<open>
  Claim C3. Whatever the seed text and however many calls came before, the number
  that \<^verbatim>\<open>generate\<close> returns is the new fourth word, read as an unsigned 32-bit integer,
  divided by \<open>2 ^ 31\<close>, and it lies in \<open>[0, 2)\<close>.
\<close>

theorem generate_range:
  "draw (seed text m) n
     = of_int (uint (to_int32 (m_seed (advance (Suc n) (seed text m)) 3))) / 2 ^ 31
   \<and> 0 \<le> draw (seed text m) n \<and> draw (seed text m) n < 2"
proof -
  let ?g = "seed text m"
  have "draw ?g n = of_int (uint (to_int32 (m_seed (advance (Suc n) ?g) 3))) / 2 ^ 31"
    unfolding draw_def advance_Suc_right by (rule generate_value)
  moreover have "0 \<le> draw ?g n \<and> draw ?g n < 2"
    unfolding draw_def by (rule generate_bounds)
  ultimately show ?thesis by blast
qed

section \<open>Seeding\<close>

lemma step_mod:
  assumes "s \<in> \<int>" and "(of_char c :: nat) < 128"
  shows "to_int32 ((shl s 5 - s) + char_code c) = to_int32 s * 31 + of_char c"
proof -
  from assms(1) obtain k where k: "s = of_int k" by (auto elim: Ints_cases)
  have "(shl s 5 - s) + char_code c
        = of_int (sint (push_bit 5 (word_of_int k :: 32 word)) - k + of_char c)"
    by (simp add: k shl_def of_int32_def to_int32_def char_code_seven_bit [OF assms(2)])
  then have "to_int32 ((shl s 5 - s) + char_code c)
        = push_bit 5 (word_of_int k) - word_of_int k + of_char c"
    by (simp add: to_int32_def del: of_int_add of_int_diff) (simp add: of_char_def)
  also have "\<dots> = word_of_int k * 31 + of_char c"
    by (simp add: push_bit_eq_mult)
  finally show ?thesis by (simp add: k to_int32_def)
qed

lemma words_of_upd: "words_of (m_seed_upd m k v) = m_seed_upd (words_of m) k (to_int32 v)"
  by (cases m) simp

lemma m_seed_words_of: "m_seed (words_of m) k = to_int32 (m_seed m k)"
  by (cases m) simp

lemma integral_upd: "integral m \<Longrightarrow> v \<in> \<int> \<Longrightarrow> integral (m_seed_upd m k v)"
  by (cases m) simp

lemma integral_m_seed: "integral m \<Longrightarrow> m_seed m k \<in> \<int>"
  by (cases m) simp

lemma seed_loop_refines:
  "integral m \<Longrightarrow> seven_bit cs \<Longrightarrow>
   words_of (seed_loop i cs m) = reference_loop i cs (words_of m)"
proof (induction cs arbitrary: i m)
  case Nil
  show ?case by simp
next
  case (Cons c cs)
  let ?s = "m_seed m (i mod 4)"
  let ?v = "(shl ?s 5 - ?s) + char_code c"
  from Cons.prems(2) have c: "(of_char c :: nat) < 128" and cs: "seven_bit cs"
    by (simp_all add: seven_bit_def)
  have s: "?s \<in> \<int>" using Cons.prems(1) by (rule integral_m_seed)
  then have v: "?v \<in> \<int>" by simp
  have "words_of (seed_loop (i + 1) cs (m_seed_upd m (i mod 4) ?v))
        = reference_loop (i + 1) cs (words_of (m_seed_upd m (i mod 4) ?v))"
    using integral_upd [OF Cons.prems(1) v] cs by (rule Cons.IH)
  then show ?case
    by (simp add: words_of_upd m_seed_words_of step_mod [OF s c])
qed

lemma seed_clears: "seed text m = seed_loop 0 text (0, 0, 0, 0)"
  by (cases m) (simp add: seed_def)

section \<open>The magnitude of the seeded words\<close>

text \<open>
  The Numbers that \<^verbatim>\<open>seed\<close> stores are not truncated to 32 bits: each update adds at
  most \<open>2 ^ 31 + 255\<close> to the magnitude of a word. For a text of up to 4194303 characters
  they stay within \<open>2 ^ 53\<close>, where a double holds every integer and the sums and
  differences of \<^verbatim>\<open>seed\<close> are exact.
\<close>

lemma sint32_abs: "\<bar>of_int32 a\<bar> \<le> 2 ^ 31"
proof -
  have "- (2 ^ 31) \<le> sint a" and "sint a < 2 ^ 31"
    using sint_ge [of a] sint_lt [of a] by simp_all
  then have "\<bar>sint a\<bar> \<le> 2 ^ 31" by linarith
  then have "\<bar>real_of_int (sint a)\<bar> \<le> real_of_int (2 ^ 31)"
    by (simp only: of_int_abs [symmetric] of_int_le_iff)
  then show ?thesis by (simp add: of_int32_def)
qed

lemma char_code_abs: "\<bar>char_code c\<bar> \<le> 255"
proof -
  have e: "(of_char c :: int) = int (of_char c)"
    by (simp only: of_nat_of_char)
  have "(of_char c :: int) < 256"
    by (simp add: of_char_def)
  then have n: "(of_char c :: nat) < 256"
    by (simp only: e)
  show ?thesis
    unfolding char_code_def e using n by (simp add: abs_if)
qed

lemma bounded_upd: "bounded b m \<Longrightarrow> \<bar>v\<bar> \<le> b' \<Longrightarrow> b \<le> b' \<Longrightarrow> bounded b' (m_seed_upd m k v)"
  by (cases m) auto

lemma bounded_m_seed: "bounded b m \<Longrightarrow> \<bar>m_seed m k\<bar> \<le> b"
  by (cases m) auto

lemma seed_loop_magnitude:
  "bounded b m \<Longrightarrow> bounded (b + real (length cs) * 2147483903) (seed_loop i cs m)"
proof (induction cs arbitrary: i m b)
  case Nil
  then show ?case by simp
next
  case (Cons c cs)
  let ?s = "m_seed m (i mod 4)"
  let ?v = "(shl ?s 5 - ?s) + char_code c"
  have "\<bar>shl ?s 5\<bar> \<le> 2147483648"
    using sint32_abs [of "push_bit 5 (to_int32 ?s)"] by (simp add: shl_def)
  moreover have "\<bar>?s\<bar> \<le> b" using Cons.prems by (rule bounded_m_seed)
  moreover have "\<bar>char_code c\<bar> \<le> 255" by (rule char_code_abs)
  ultimately have "\<bar>?v\<bar> \<le> b + 2147483903" by linarith
  with Cons.prems have "bounded (b + 2147483903) (m_seed_upd m (i mod 4) ?v)"
    by (rule bounded_upd) simp
  then have "bounded (b + 2147483903 + real (length cs) * 2147483903)
               (seed_loop (i + 1) cs (m_seed_upd m (i mod 4) ?v))"
    by (rule Cons.IH)
  then show ?case by (simp add: algebra_simps)
qed

lemma seed_magnitude:
  "bounded (real (length text) * 2147483903) (seed text m)"
  "length text \<le> 4194303 \<Longrightarrow> bounded (2 ^ 53) (seed text m)"
proof -
  have "bounded 0 (0, 0, 0, 0)" by simp
  then have "bounded (0 + real (length text) * 2147483903) (seed_loop 0 text (0, 0, 0, 0))"
    by (rule seed_loop_magnitude)
  then show b: "bounded (real (length text) * 2147483903) (seed text m)"
    by (simp add: seed_clears)
  assume "length text \<le> 4194303"
  then have "real (length text) * 2147483903 \<le> 2 ^ 53" by simp
  with b show "bounded (2 ^ 53) (seed text m)"
    by (cases "seed text m") auto
qed

text \<open>
  Claim C4, as amended. For every seed text of 7-bit characters and of at most 4194303
  characters (where the doubles that hold the words are exact), and whatever the state
  before, the four words that \<^verbatim>\<open>seed\<close> leaves are those of the reference seeding: the
  update \<open>((s << 5) - s) + c\<close> is, modulo \<open>2 ^ 32\<close>, times 31 plus the character code.
\<close>

theorem seed_refines_reference:
  assumes "seven_bit text" and "length text \<le> 4194303"
  shows "words_of (seed text m) = seed_reference text \<and> bounded (2 ^ 53) (seed text m)"
proof -
  have "integral (0, 0, 0, 0)" by simp
  then have "words_of (seed_loop 0 text (0, 0, 0, 0)) = reference_loop 0 text (words_of (0, 0, 0, 0))"
    using assms(1) by (rule seed_loop_refines)
  then have "words_of (seed text m) = seed_reference text"
    by (simp add: seed_clears seed_reference_def)
  moreover have "bounded (2 ^ 53) (seed text m)"
    using assms(2) by (rule seed_magnitude(2))
  ultimately show ?thesis by (intro conjI)
qed

text \<open>The text \<open>hello\<close>, seeded over a state that is not zero.\<close>

theorem seed_refines_reference_witness:
  "seven_bit ''hello'' \<and> length ''hello'' \<le> 4194303
   \<and> words_of (seed ''hello'' (1, 2, 3, 4)) = seed_reference ''hello''
   \<and> seed_reference ''hello'' = (3335, 101, 108, 108)
   \<and> bounded (2 ^ 53) (seed ''hello'' (1, 2, 3, 4))"
proof -
  have h1: "seven_bit ''hello''" by (simp add: seven_bit_def)
  have h2: "length ''hello'' \<le> 4194303" by simp
  have r: "seed_reference ''hello'' = (3335, 101, 108, 108)" by code_simp
  from seed_refines_reference [OF h1 h2, of "(1, 2, 3, 4)"] h1 h2 r
  show ?thesis by (intro conjI) (simp_all only: simp_thms)
qed

text \<open>
  The claim C4 as stated, for every seed text, fails for a character from \<open>0x80\<close> on:
  the code adds the plain \<^verbatim>\<open>char\<close>, a negative number. For the one character
  \<open>0xC8\<close> the code adds \<open>- 56\<close> and leaves the word 4294967240, where the reference has
  the character code 200.
\<close>

theorem seed_high_byte_counterexample:
  "seed [CHR 0xC8] (0, 0, 0, 0) = (- 56, 0, 0, 0)
   \<and> words_of (seed [CHR 0xC8] (0, 0, 0, 0)) = (4294967240, 0, 0, 0)
   \<and> seed_reference [CHR 0xC8] = (200, 0, 0, 0)
   \<and> words_of (seed [CHR 0xC8] (0, 0, 0, 0)) \<noteq> seed_reference [CHR 0xC8]"
  by code_simp

lemma generate_zero: "generate (0, 0, 0, 0) = (0, (0, 0, 0, 0))"
  by (simp add: generate_words xorshift_signed_def of_int32_def)

lemma seed_empty: "seed [] m = (0, 0, 0, 0)"
  by (simp add: seed_clears)

lemma advance_zero: "advance n (0, 0, 0, 0) = (0, 0, 0, 0)"
  by (induction n) (simp_all add: generate_zero)

text \<open>
  Claim C5. After \<^verbatim>\<open>seed("")\<close> the state is \<open>[0, 0, 0, 0]\<close>; every later call of
  \<^verbatim>\<open>generate\<close>, the \<open>n + 1\<close>-th for any \<open>n\<close>, returns exactly 0 and leaves the state
  all zero.
\<close>

theorem zero_seed_fixed_point:
  "seed [] m = (0, 0, 0, 0) \<and> draw (seed [] m) n = 0
   \<and> advance (Suc n) (seed [] m) = (0, 0, 0, 0)"
  by (simp add: seed_empty draw_def advance_zero generate_zero del: advance.simps)

section \<open>The stores and copies of the bitmap\<close>

lemma draw_cells_first_store: "draw_cells (Suc n) 0 [] g = Inl OutOfRange"
  by (simp add: assign_at_def split_beta)

lemma rows_loop_first_store: "rows_loop (Suc n) (Suc dw) mw data g = Inl OutOfRange"
  by (simp add: draw_cells_first_store del: draw_cells.simps)

lemma rows_loop_first_slice: "rows_loop (Suc n) 0 (Suc mw) data g = Inl OutOfRange"
  by (simp add: slice_def)

lemma nat_Suc_pred: "0 < k \<Longrightarrow> nat k = Suc (nat (k - 1))"
  by simp

lemma createImageData_Num_positive:
  assumes "0 < s"
  shows "createImageData (Num s) g = Inl OutOfRange"
proof -
  from assms have "0 < \<lceil>s\<rceil>" and "0 < \<lceil>s / 2\<rceil>"
    by simp_all
  then have "nat \<lceil>s\<rceil> = Suc (nat (\<lceil>s\<rceil> - 1))" and "nat \<lceil>s / 2\<rceil> = Suc (nat (\<lceil>s / 2\<rceil> - 1))"
    by (simp_all only: nat_Suc_pred)
  then show ?thesis
    by (simp add: createImageData_def Let_def rows_loop_first_store del: rows_loop.simps)
qed

lemma createImageData_true: "createImageData (Integral 1) g = Inl OutOfRange"
  by (simp add: createImageData_def Let_def slice_def)

lemma createImageData_not_positive: "s \<le> 0 \<Longrightarrow> createImageData (Num s) g = Inr ([], g)"
  by (simp add: createImageData_def Let_def)

text \<open>
  Claim C6: the code at size 2. The first row is to hold one drawn cell and its mirror
  image. The drawn cell is assigned to \<^verbatim>\<open>row[0]\<close> of the empty row, beyond its end, so
  the call ends there, before any row exists; and \<^verbatim>\<open>concat\<close>, which should append the
  mirrored cell to a row of one cell, inserts at an iterator of another Array.
\<close>

theorem createImageData_size_2:
  "createImageData (Num 2) g = Inl OutOfRange
   \<and> assign_at [] 0 (cell (fst (generate g))) = Inl OutOfRange
   \<and> concat_Array [c] (reverse [c]) = Inl ForeignIterator"
proof -
  have "createImageData (Num 2) g = Inl OutOfRange"
    by (rule createImageData_Num_positive) simp
  then show ?thesis
    by (simp add: assign_at_def concat_Array_def reverse_def)
qed

section \<open>The cells\<close>

lemma cell_range:
  assumes "0 \<le> r" and "r < 2"
  shows "cell r \<in> {0, 1, 2, 3, 4}"
proof -
  have "0 \<le> cell r"
    using assms(1) by (simp add: cell_def)
  moreover have "cell r < 5"
    using assms(2) by (simp add: cell_def floor_less_iff)
  ultimately show ?thesis by auto
qed

text \<open>
  Claim C8: the code at the first cell of a row. The value of \<^verbatim>\<open>floor(rand() * 2.3)\<close>
  takes one call of \<^verbatim>\<open>generate\<close> and is one of 0, 1, 2, 3, 4; but the assignment of this
  value to \<^verbatim>\<open>row[0]\<close> of the empty row is out of range, whatever the number of cells to
  draw, so no cell of a grid ever holds it.
\<close>

theorem draw_cells_no_cell:
  "cell (fst (generate g)) = \<lfloor>draw g 0 * (23 / 10)\<rfloor>
   \<and> snd (generate g) = advance 1 g
   \<and> cell (fst (generate g)) \<in> {0, 1, 2, 3, 4}
   \<and> draw_cells (Suc n) 0 [] g = Inl OutOfRange"
proof -
  have "cell (fst (generate g)) \<in> {0, 1, 2, 3, 4}"
    using generate_bounds [of g] by (intro cell_range) simp_all
  moreover have "cell (fst (generate g)) = \<lfloor>draw g 0 * (23 / 10)\<rfloor>"
    by (simp add: cell_def draw_def)
  moreover have "snd (generate g) = advance 1 g"
    by simp
  ultimately show ?thesis
    using draw_cells_first_store [of n g] by (intro conjI)
qed

section \<open>The icon\<close>

lemma createColor_draws: "createColor g = (color_of_draws g 0, advance 6 g)"
  by (simp add: createColor_def color_of_draws_def hsl_def draw_def split_beta Let_def
      eval_nat_numeral)

lemma or_createColor_draws:
  "or_createColor a g =
     (case a of None \<Rightarrow> color_of_draws g 0 | Some s \<Rightarrow> s, advance (color_draws a) g)"
  by (simp add: or_createColor_def createColor_draws color_draws_def split: option.splits)

lemma color_of_draws_advance: "color_of_draws (advance m g) k = color_of_draws g (m + k)"
  by (simp add: color_of_draws_def draw_advance add.assoc)

lemma logical_or_default: "logical_or a 8 = True" "logical_or a 4 = True"
  by (simp_all add: logical_or_def)

lemma createIcon_resolve_draws:
  "createIcon_resolve synthesized opts g0 =
     (let g = seed (or_supplied (opts_seed opts) synthesized) g0;
          n1 = color_draws (opts_color opts);
          n2 = n1 + color_draws (opts_bgcolor opts);
          n3 = n2 + color_draws (opts_spotcolor opts)
      in (\<lparr>res_size = True, res_scale = True,
           res_color = (case opts_color opts of None \<Rightarrow> color_of_draws g 0 | Some s \<Rightarrow> s),
           res_bgcolor = (case opts_bgcolor opts of None \<Rightarrow> color_of_draws g n1 | Some s \<Rightarrow> s),
           res_spotcolor =
             (case opts_spotcolor opts of None \<Rightarrow> color_of_draws g n2 | Some s \<Rightarrow> s)\<rparr>,
          advance n3 g))"
  by (simp add: createIcon_resolve_def or_createColor_draws Let_def split_beta advance_add
      color_of_draws_advance logical_or_default split: option.splits)

lemma createIcon_faults: "createIcon synthesized opts g0 = Inl OutOfRange"
  by (simp add: createIcon_def createIcon_resolve_draws Let_def createImageData_true)

text \<open>
  Claim C7. With the generator seeded (state \<open>g\<close>), \<^verbatim>\<open>createIcon\<close> resolves the colour,
  then the background colour, then the spot colour: a colour that was supplied is taken
  as it is and draws nothing, a colour that was not takes the next six draws, in the
  order hue, saturation and the four summands of the lightness. The state in which
  \<^verbatim>\<open>createImageData\<close> is called is the one after these \<open>n3\<close> draws, six for each colour
  not supplied: after exactly 18 draws when no colour was supplied.
\<close>

theorem createIcon_draw_order:
  "(let g = seed (or_supplied (opts_seed opts) synthesized) g0;
        n1 = (case opts_color opts of None \<Rightarrow> 6 | Some s \<Rightarrow> 0);
        n2 = n1 + (case opts_bgcolor opts of None \<Rightarrow> 6 | Some s \<Rightarrow> 0);
        n3 = n2 + (case opts_spotcolor opts of None \<Rightarrow> 6 | Some s \<Rightarrow> 0);
        r = fst (createIcon_resolve synthesized opts g0)
    in res_color r = (case opts_color opts of None \<Rightarrow> color_of_draws g 0 | Some s \<Rightarrow> s)
     \<and> res_bgcolor r = (case opts_bgcolor opts of None \<Rightarrow> color_of_draws g n1 | Some s \<Rightarrow> s)
     \<and> res_spotcolor r
         = (case opts_spotcolor opts of None \<Rightarrow> color_of_draws g n2 | Some s \<Rightarrow> s)
     \<and> snd (createIcon_resolve synthesized opts g0) = advance n3 g
     \<and> createIcon synthesized opts g0
         = (case createImageData (Integral (of_bool (res_size r))) (advance n3 g) of
              Inl e \<Rightarrow> Inl e
            | Inr (imageData, g5) \<Rightarrow>
                Inr (\<lparr>icon_imageData = imageData, icon_color = res_color r,
                      icon_scale = res_scale r, icon_bgcolor = res_bgcolor r,
                      icon_spotcolor = res_spotcolor r\<rparr>, g5)))
   \<and> createColor g' = (hsl (draw g' 0) (draw g' 1) (draw g' 2) (draw g' 3) (draw g' 4) (draw g' 5),
                        advance 6 g')
   \<and> snd (createIcon_resolve synthesized
            (opts\<lparr>opts_color := None, opts_bgcolor := None, opts_spotcolor := None\<rparr>) g0)
       = advance 18 (seed (or_supplied (opts_seed opts) synthesized) g0)"
  by (simp add: createIcon_def createIcon_resolve_draws color_draws_def Let_def
      createColor_draws color_of_draws_def numeral_2_eq_2 split_beta createImageData_true
      split: option.splits)

text \<open>
  Claim C1: the code with an explicit seed. Lines 226 to 234 give the same resolved
  colour strings and leave the generator in the same state, whatever the synthesized
  seed and whatever state the shared generator was left in: \<^verbatim>\<open>seed\<close> clears the state
  first. But no bitmap grid is produced: the size is resolved to \<^verbatim>\<open>true\<close>, for which
  \<^verbatim>\<open>createImageData\<close> has \<open>dataWidth = 0\<close> and \<open>mirrorWidth = 1\<close> and copies one cell
  of the empty row.
\<close>

theorem createIcon_explicit_seed:
  "createIcon_resolve synthesized' (opts\<lparr>opts_seed := Some t\<rparr>) g'
     = createIcon_resolve synthesized (opts\<lparr>opts_seed := Some t\<rparr>) g
   \<and> createIcon synthesized (opts\<lparr>opts_seed := Some t\<rparr>) g = Inl OutOfRange"
  by (simp add: createIcon_faults createIcon_resolve_def or_supplied_def seed_clears)

section \<open>The size and the scale\<close>

text \<open>
  The claim C9 as stated fails: with the size 0 and with the size \<open>- 3\<close>,
  \<^verbatim>\<open>createIcon\<close> signals no invalid argument. It seeds the generator and draws the
  three colours, 18 draws, as for any size.
\<close>

theorem createIcon_nonpositive_size_counterexample:
  "createIcon ''0''
     \<lparr>opts_size = 0, opts_scale = 4, opts_seed = Some ''hello'',
      opts_color = None, opts_bgcolor = None, opts_spotcolor = None\<rparr> (0, 0, 0, 0)
     \<noteq> Inl InvalidArgument
   \<and> createIcon ''0''
     \<lparr>opts_size = - 3, opts_scale = 4, opts_seed = Some ''hello'',
      opts_color = None, opts_bgcolor = None, opts_spotcolor = None\<rparr> (0, 0, 0, 0)
     \<noteq> Inl InvalidArgument
   \<and> snd (createIcon_resolve ''0''
       \<lparr>opts_size = - 3, opts_scale = 4, opts_seed = Some ''hello'',
        opts_color = None, opts_bgcolor = None, opts_spotcolor = None\<rparr> (0, 0, 0, 0))
     = advance 18 (seed ''hello'' (0, 0, 0, 0))"
  by (simp add: createIcon_faults createIcon_resolve_draws Let_def color_draws_def
      or_supplied_def)

text \<open>
  Claim C9, as amended. \<^verbatim>\<open>createIcon\<close> has no check of its arguments: for every size
  \<open>n\<close>, in particular for \<open>n \<le> 0\<close>, it signals no invalid argument, and it seeds the
  generator and resolves the three colours as it does for any other size.
\<close>

theorem createIcon_no_size_check:
  "createIcon synthesized (opts\<lparr>opts_size := n\<rparr>) g0 \<noteq> Inl InvalidArgument
   \<and> snd (createIcon_resolve synthesized (opts\<lparr>opts_size := n\<rparr>) g0)
       = snd (createIcon_resolve synthesized opts g0)
   \<and> res_color (fst (createIcon_resolve synthesized (opts\<lparr>opts_size := n\<rparr>) g0))
       = res_color (fst (createIcon_resolve synthesized opts g0))
   \<and> res_bgcolor (fst (createIcon_resolve synthesized (opts\<lparr>opts_size := n\<rparr>) g0))
       = res_bgcolor (fst (createIcon_resolve synthesized opts g0))
   \<and> res_spotcolor (fst (createIcon_resolve synthesized (opts\<lparr>opts_size := n\<rparr>) g0))
       = res_spotcolor (fst (createIcon_resolve synthesized opts g0))"
  by (simp add: createIcon_faults createIcon_resolve_draws Let_def)

text \<open>
  Claim C10: the code with the size 0 and the scale 0. \<^verbatim>\<open>opts.size || 8\<close> and
  \<^verbatim>\<open>opts.scale || 4\<close> are the \<^verbatim>\<open>bool\<close> \<^verbatim>\<open>true\<close>, not 8 and 4;
  \<^verbatim>\<open>createImageData(true)\<close> computes \<open>dataWidth = 0\<close> and \<open>mirrorWidth = 1\<close>, draws
  nothing and copies one cell of the empty row: there is no grid of 8 by 8 cells.
\<close>

theorem createIcon_size_0:
  "res_size (fst (createIcon_resolve synthesized (opts\<lparr>opts_size := 0, opts_scale := 0\<rparr>) g0))
     = True
   \<and> res_scale (fst (createIcon_resolve synthesized (opts\<lparr>opts_size := 0, opts_scale := 0\<rparr>) g0))
     = True
   \<and> number_of (Integral (of_bool True)) = 1
   \<and> \<lceil>half (Integral (of_bool True))\<rceil> = 0
   \<and> slice ([] :: int list) 0 1 = Inl OutOfRange
   \<and> createImageData (Integral (of_bool True)) g = Inl OutOfRange
   \<and> createIcon synthesized (opts\<lparr>opts_size := 0, opts_scale := 0\<rparr>) g0 = Inl OutOfRange"
  by (simp add: createIcon_faults createIcon_resolve_draws Let_def createImageData_true slice_def)

end
